theory Spec2Isabelle
  imports Main
begin

section \<open>The identity statistic of plotnine (\<open>plotnine/stats/stat_identity.py\<close>)\<close>

text \<open>
  The module defines one class, \<open>stat_identity\<close>, with a class attribute
  \<open>DEFAULT_PARAMS\<close> and a class method
  \<^verbatim>\<open>
    DEFAULT_PARAMS = {'geom': 'point', 'position': 'identity'}

    @classmethod
    def compute_panel(cls, data, scales, **params):
        return data
  \<close>
  Python passes objects by reference, so the arguments \<open>data\<close> and \<open>scales\<close> are
  references into an object store, and the method returns a reference. The store is
  threaded through the call explicitly: a Python method can mutate the objects it is
  handed, and the claims about mutation and aliasing are claims about that store.
\<close>

subsection \<open>Values, objects and the store\<close>

type_synonym ref = nat

datatype pyval = PyNone | PyBool bool | PyInt int | PyStr string | PyRef ref

text \<open>
  A data frame (the pandas type of \<open>data\<close>): the row labels, and the columns in
  their order, each with its name and its cells from the first row to the last.
\<close>

record dataframe =
  df_index :: "pyval list"
  df_columns :: "(string \<times> pyval list) list"

text \<open>
  What a reference can point to: a data frame, or any other object, given by its
  attributes (the \<open>scales\<close> argument is such an object).
\<close>

datatype pyobj = DataFrame dataframe | Object "(string \<times> pyval) list"

text \<open>The state a call runs in: the object store.\<close>

record state =
  store :: "ref \<rightharpoonup> pyobj"

text \<open>
  The one exception a call of \<open>compute_panel\<close> can end in:
  \<open>TypeError: compute_panel() got multiple values for argument 'k'\<close>, with the name
  \<open>k\<close> of the argument.
\<close>

datatype error = TypeError string

subsection \<open>Reading and writing the store\<close>

definition frame_at :: "state \<Rightarrow> ref \<Rightarrow> dataframe option" where
  "frame_at st r = (case store st r of Some (DataFrame f) \<Rightarrow> Some f | _ \<Rightarrow> None)"

definition nrows :: "dataframe \<Rightarrow> nat" where
  "nrows f = length (df_index f)"

definition colnames :: "dataframe \<Rightarrow> string list" where
  "colnames f = map fst (df_columns f)"

definition cells :: "dataframe \<Rightarrow> string \<rightharpoonup> pyval list" where
  "cells f = map_of (df_columns f)"

text \<open>An in-place mutation: the object behind a reference is replaced.\<close>

definition store_write :: "ref \<Rightarrow> pyobj \<Rightarrow> state \<Rightarrow> state" where
  "store_write r obj st = st\<lparr>store := (store st)(r \<mapsto> obj)\<rparr>"

subsection \<open>The class \<open>stat_identity\<close>\<close>

text \<open>The class object that a class method receives as \<open>cls\<close>.\<close>

record stat_class =
  DEFAULT_PARAMS :: "(string \<times> string) list"

definition stat_identity :: stat_class where
  "stat_identity =
     \<lparr>DEFAULT_PARAMS = [(''geom'', ''point''), (''position'', ''identity'')]\<rparr>"

text \<open>
  The signature is \<open>compute_panel(cls, data, scales, **params)\<close>. The class fills
  \<open>cls\<close> and the caller's two positional arguments fill \<open>data\<close> and \<open>scales\<close>; the
  keyword arguments are then matched against the parameter names in the order they were
  given. A keyword that names a parameter already filled makes the call raise
  \<open>TypeError\<close> before the body runs; every other keyword goes into the dictionary
  \<open>params\<close>.
\<close>

definition bound_names :: "string list" where
  "bound_names = [''cls'', ''data'', ''scales'']"

definition clash :: "(string \<times> pyval) list \<Rightarrow> string option" where
  "clash params = find (\<lambda>k. k \<in> set bound_names) (map fst params)"

text \<open>
  The call: binding of the arguments, then the body, the single statement
  \<open>return data\<close>. A raise is \<open>Inl\<close> of the exception, a normal return is \<open>Inr\<close> of
  the returned reference; either comes with the state the call leaves behind.
\<close>

definition compute_panel ::
  "stat_class \<Rightarrow> ref \<Rightarrow> ref \<Rightarrow> (string \<times> pyval) list \<Rightarrow> state
     \<Rightarrow> (error \<times> state) + (ref \<times> state)" where
  "compute_panel cls data scales params st =
     (case clash params of
        Some k \<Rightarrow> Inl (TypeError k, st)
      | None \<Rightarrow> Inr (data, st))"

text \<open>The state after a call, however it ended.\<close>

definition final_state :: "('e \<times> state) + ('a \<times> state) \<Rightarrow> state" where
  "final_state res = (case res of Inl (e, st) \<Rightarrow> st | Inr (r, st) \<Rightarrow> st)"

text \<open>The object that the returned reference points to in the state after the call.\<close>

definition behind :: "('e \<times> state) + (ref \<times> state) \<Rightarrow> pyobj option" where
  "behind res = (case res of Inl (e, st) \<Rightarrow> None | Inr (r, st) \<Rightarrow> store st r)"

text \<open>Sequencing of calls: an exception of the first call skips the second.\<close>

definition bind_result :: "'e + 'a \<Rightarrow> ('a \<Rightarrow> 'e + 'b) \<Rightarrow> 'e + 'b" where
  "bind_result m k = (case m of Inl e \<Rightarrow> Inl e | Inr a \<Rightarrow> k a)"

subsection \<open>A concrete panel\<close>

text \<open>
  A state with a two-row data frame behind reference 0, another behind reference 1,
  and a scales object behind reference 2.
\<close>

definition panel_state :: state where
  "panel_state =
     \<lparr>store =
        [0 \<mapsto> DataFrame \<lparr>df_index = [PyInt 0, PyInt 1],
                          df_columns = [(''x'', [PyInt 1, PyInt 2]), (''y'', [PyInt 3, PyInt 4])]\<rparr>,
         1 \<mapsto> DataFrame \<lparr>df_index = [PyInt 0],
                          df_columns = [(''x'', [PyInt 7]), (''y'', [PyInt 9])]\<rparr>,
         2 \<mapsto> Object [(''x'', PyNone), (''y'', PyNone)]]\<rparr>"

subsection \<open>Invocations run in parallel\<close>

text \<open>
  The pipeline may run the invocations for several panels at once, over the one object
  store they share. Each invocation is a thread that moves through the stages of a
  call: called with its arguments, then (the arguments bound) about to run the body
  with its local variables, then returned; or raised, when binding failed. A thread
  that has returned or raised moves no further.
\<close>

record locals =
  l_cls :: stat_class
  l_data :: ref
  l_scales :: ref
  l_params :: "(string \<times> pyval) list"

datatype thread =
    Called stat_class ref ref "(string \<times> pyval) list"
  | Running locals
  | Returned ref
  | Raised error

fun thread_step :: "thread \<Rightarrow> state \<Rightarrow> thread \<times> state" where
  "thread_step (Called cls data scales params) st =
     (case clash params of
        Some k \<Rightarrow> (Raised (TypeError k), st)
      | None \<Rightarrow> (Running \<lparr>l_cls = cls, l_data = data, l_scales = scales, l_params = params\<rparr>, st))"
| "thread_step (Running loc) st = (Returned (l_data loc), st)"
| "thread_step (Returned r) st = (Returned r, st)"
| "thread_step (Raised e) st = (Raised e, st)"

fun finished :: "thread \<Rightarrow> bool" where
  "finished (Returned r) = True"
| "finished (Raised e) = True"
| "finished (Called cls data scales params) = False"
| "finished (Running loc) = False"

text \<open>
  A schedule is the list of the thread numbers in the order in which the threads get
  to make a step; a number that names no thread is skipped. Any interleaving of the
  threads is some schedule.
\<close>

fun run_schedule :: "nat list \<Rightarrow> thread list \<times> state \<Rightarrow> thread list \<times> state" where
  "run_schedule [] cfg = cfg"
| "run_schedule (i # sch) (ts, st) =
     (if i < length ts
      then (case thread_step (ts ! i) st of (t', st') \<Rightarrow> run_schedule sch (ts[i := t'], st'))
      else run_schedule sch (ts, st))"

text \<open>A thread on its own: \<open>n\<close> steps of it, in a state nothing else touches.\<close>

fun advance :: "nat \<Rightarrow> state \<Rightarrow> thread \<Rightarrow> thread" where
  "advance 0 st t = t"
| "advance (Suc n) st t = advance n st (fst (thread_step t st))"

type_synonym invocation = "stat_class \<times> ref \<times> ref \<times> (string \<times> pyval) list"

definition invoke :: "invocation \<Rightarrow> thread" where
  "invoke c = (case c of (cls, data, scales, params) \<Rightarrow> Called cls data scales params)"

text \<open>The outcome of an invocation made alone, by \<open>compute_panel\<close>.\<close>

definition alone :: "state \<Rightarrow> invocation \<Rightarrow> thread" where
  "alone st c =
     (case c of (cls, data, scales, params) \<Rightarrow>
        (case compute_panel cls data scales params st of
           Inl (e, st') \<Rightarrow> Raised e
         | Inr (r, st') \<Rightarrow> Returned r))"

section \<open>Properties\<close>

subsection \<open>Argument binding\<close>

lemma clash_None_iff:
  "clash p = None \<longleftrightarrow> fst ` set p \<inter> {''cls'', ''data'', ''scales''} = {}"
  by (force simp: clash_def bound_names_def find_None_iff)

lemma compute_panel_binds:
  "fst ` set p \<inter> {''cls'', ''data'', ''scales''} = {} \<Longrightarrow> compute_panel cls d s p st = Inr (d, st)"
  using clash_None_iff [of p] by (simp add: compute_panel_def)

lemma final_state_compute_panel: "final_state (compute_panel cls d s p st) = st"
  by (cases "clash p") (simp_all add: compute_panel_def final_state_def)

subsection \<open>Threads\<close>

lemma thread_step_state: "snd (thread_step t st) = st"
  by (cases t) (simp_all split: option.splits)

text \<open>
  Whatever the schedule, the shared state stays as it was, and every thread is where
  as many steps of its own as the schedule gave it take it.
\<close>

lemma run_schedule_threads:
  "run_schedule sch (ts, st) =
     (map (\<lambda>i. advance (count_list sch i) st (ts ! i)) [0..<length ts], st)"
proof (induction sch arbitrary: ts)
  case Nil
  show ?case by (simp add: map_nth)
next
  case (Cons i sch)
  show ?case
  proof (cases "i < length ts")
    case True
    have "run_schedule (i # sch) (ts, st) = run_schedule sch (ts[i := fst (thread_step (ts ! i) st)], st)"
      using True thread_step_state [of "ts ! i" st] by (simp add: split_beta)
    also have "\<dots> = (map (\<lambda>j. advance (count_list sch j) st (ts[i := fst (thread_step (ts ! i) st)] ! j)) [0..<length ts], st)"
      by (simp add: Cons.IH)
    also have "\<dots> = (map (\<lambda>j. advance (count_list (i # sch) j) st (ts ! j)) [0..<length ts], st)"
      using True by (auto simp: nth_list_update)
    finally show ?thesis .
  next
    case False
    then have "\<And>j. j < length ts \<Longrightarrow> count_list (i # sch) j = count_list sch j"
      by auto
    then show ?thesis using False by (simp add: Cons.IH)
  qed
qed

lemma advance_finished: "finished t \<Longrightarrow> advance n st t = t"
  by (induction n) (cases t; simp)+

lemma advance_two: "advance (Suc (Suc n)) st (invoke c) = alone st c"
  by (cases c; cases "clash (snd (snd (snd c)))")
     (simp_all add: invoke_def alone_def compute_panel_def advance_finished)

lemma finished_advance:
  "finished (advance n st (invoke c)) \<Longrightarrow> advance n st (invoke c) = alone st c"
proof (cases n)
  case 0
  then show "finished (advance n st (invoke c)) \<Longrightarrow> ?thesis"
    by (cases c) (simp add: invoke_def)
next
  case (Suc m)
  show "finished (advance n st (invoke c)) \<Longrightarrow> ?thesis"
  proof (cases m)
    case 0
    assume "finished (advance n st (invoke c))"
    with Suc 0 show ?thesis
      by (cases c; cases "clash (snd (snd (snd c)))")
         (simp_all add: invoke_def alone_def compute_panel_def)
  next
    case (Suc k)
    with \<open>n = Suc m\<close> show ?thesis
      by (simp only: advance_two)
  qed
qed

subsection \<open>The claims\<close>

text \<open>
  C1 (identity law), as the spec states it: for every dataset and any scales and
  params the call returns a dataset equal to the input. It fails when a keyword is
  named like a parameter: with \<open>data\<close> among the keywords the call raises
  \<open>TypeError\<close> and returns no dataset.
\<close>

theorem compute_panel_identity_counterexample:
  "isl (compute_panel stat_identity 0 2 [(''data'', PyRef 1)] panel_state)
   \<and> compute_panel stat_identity 0 2 [(''data'', PyRef 1)] panel_state
       = Inl (TypeError ''data'', panel_state)
   \<and> behind (compute_panel stat_identity 0 2 [(''data'', PyRef 1)] panel_state)
       \<noteq> store panel_state 0"
  by (simp add: compute_panel_def clash_def bound_names_def behind_def panel_state_def)

text \<open>
  C1 (identity law), amended. For every panel dataset, any scales and any params with
  no keyword named \<open>cls\<close>, \<open>data\<close> or \<open>scales\<close>, the call returns normally, and the
  dataset behind the returned reference in the final state is the dataset behind
  \<open>data\<close> in the initial state: same row count, same column order, same column set,
  and the same cells in every column. In particular, when \<open>data\<close> refers to a data
  frame \<open>f\<close>, the returned reference refers to \<open>f\<close>.
\<close>

theorem compute_panel_identity:
  "fst ` set p \<inter> {''cls'', ''data'', ''scales''} = {} \<Longrightarrow>
   (\<exists>r st'. compute_panel cls d s p st = Inr (r, st')
      \<and> frame_at st' r = frame_at st d
      \<and> map_option nrows (frame_at st' r) = map_option nrows (frame_at st d)
      \<and> map_option colnames (frame_at st' r) = map_option colnames (frame_at st d)
      \<and> map_option (set \<circ> colnames) (frame_at st' r) = map_option (set \<circ> colnames) (frame_at st d)
      \<and> map_option cells (frame_at st' r) = map_option cells (frame_at st d))
   \<and> (\<exists>r st'. compute_panel cls d s p (store_write d (DataFrame f) st) = Inr (r, st')
      \<and> frame_at st' r = Some f)"
  by (simp add: compute_panel_binds frame_at_def store_write_def)

theorem compute_panel_identity_witness:
  "fst ` set [(''na_rm'', PyBool False)] \<inter> {''cls'', ''data'', ''scales''} = {}
   \<and> compute_panel stat_identity 0 2 [(''na_rm'', PyBool False)] panel_state = Inr (0, panel_state)
   \<and> frame_at panel_state 0
        = Some \<lparr>df_index = [PyInt 0, PyInt 1],
                 df_columns = [(''x'', [PyInt 1, PyInt 2]), (''y'', [PyInt 3, PyInt 4])]\<rparr>"
proof -
  have h: "fst ` set [(''na_rm'', PyBool False)] \<inter> {''cls'', ''data'', ''scales''} = {}"
    by simp
  have fr: "frame_at panel_state 0
        = Some \<lparr>df_index = [PyInt 0, PyInt 1],
                 df_columns = [(''x'', [PyInt 1, PyInt 2]), (''y'', [PyInt 3, PyInt 4])]\<rparr>"
    by (simp add: frame_at_def panel_state_def)
  from compute_panel_identity
         [OF h, where cls = stat_identity and d = 0 and s = 2 and st = panel_state
            and f = "\<lparr>df_index = [], df_columns = []\<rparr>"]
  obtain r st' where "compute_panel stat_identity 0 2 [(''na_rm'', PyBool False)] panel_state = Inr (r, st')"
    and "frame_at st' r = frame_at panel_state 0"
    by blast
  moreover have "compute_panel stat_identity 0 2 [(''na_rm'', PyBool False)] panel_state = Inr (0, panel_state)"
    by (simp add: compute_panel_def clash_def bound_names_def)
  ultimately show ?thesis using h fr by simp
qed

text \<open>
  C2 (default configuration). \<open>DEFAULT_PARAMS\<close> of \<open>stat_identity\<close> is the mapping
  \<open>{geom: "point", position: "identity"}\<close>: it has these two entries in this order,
  these two keys and no other, and as a mapping it sends \<open>geom\<close> to \<open>point\<close> and
  \<open>position\<close> to \<open>identity\<close>.
\<close>

theorem default_params_value:
  "DEFAULT_PARAMS stat_identity = [(''geom'', ''point''), (''position'', ''identity'')]
   \<and> map_of (DEFAULT_PARAMS stat_identity) = [''geom'' \<mapsto> ''point'', ''position'' \<mapsto> ''identity'']
   \<and> dom (map_of (DEFAULT_PARAMS stat_identity)) = {''geom'', ''position''}
   \<and> map_of (DEFAULT_PARAMS stat_identity) ''geom'' = Some ''point''
   \<and> map_of (DEFAULT_PARAMS stat_identity) ''position'' = Some ''identity''"
proof -
  have entries: "DEFAULT_PARAMS stat_identity = [(''geom'', ''point''), (''position'', ''identity'')]"
    by (simp add: stat_identity_def)
  have as_map: "map_of (DEFAULT_PARAMS stat_identity) = [''geom'' \<mapsto> ''point'', ''position'' \<mapsto> ''identity'']"
    unfolding entries by (rule ext) simp
  have keys: "dom (map_of (DEFAULT_PARAMS stat_identity)) = {''geom'', ''position''}"
    unfolding entries by auto
  from entries as_map keys show ?thesis
    by simp
qed

text \<open>
  C3 (idempotence). Calling \<open>compute_panel\<close> on the reference and state that a first
  call returned, with the same scales and params, gives the result of the first call.
  (When the first call raises, so does the sequence of the two, with the same
  exception.)
\<close>

theorem compute_panel_idempotent:
  "bind_result (compute_panel cls d s p st) (\<lambda>(r, st'). compute_panel cls r s p st')
     = compute_panel cls d s p st"
  by (cases "clash p") (simp_all add: bind_result_def compute_panel_def)

text \<open>
  C4 (indifference to the arguments other than the data), as the spec states it: any
  two choices of scales and params give the same output. It fails for two params of
  which one has a keyword named like a parameter: the call with no keyword returns,
  the call with the keyword \<open>scales\<close> raises.
\<close>

theorem compute_panel_args_indifferent_counterexample:
  "compute_panel stat_identity 0 2 [] panel_state
     \<noteq> compute_panel stat_identity 0 2 [(''scales'', PyRef 2)] panel_state"
  by (simp add: compute_panel_def clash_def bound_names_def)

text \<open>
  C4, amended. For the same dataset and state, any two choices of scales, and any two
  choices of params neither of which has a keyword named \<open>cls\<close>, \<open>data\<close> or
  \<open>scales\<close>, give the same result.
\<close>

theorem compute_panel_args_indifferent:
  "fst ` set p1 \<inter> {''cls'', ''data'', ''scales''} = {} \<Longrightarrow>
   fst ` set p2 \<inter> {''cls'', ''data'', ''scales''} = {} \<Longrightarrow>
   compute_panel cls d s1 p1 st = compute_panel cls d s2 p2 st"
  by (simp add: compute_panel_binds)

theorem compute_panel_args_indifferent_witness:
  "fst ` set [(''geom'', PyStr ''line'')] \<inter> {''cls'', ''data'', ''scales''} = {}
   \<and> fst ` set [(''na_rm'', PyBool True), (''width'', PyInt 3)] \<inter> {''cls'', ''data'', ''scales''} = {}
   \<and> compute_panel stat_identity 0 2 [(''geom'', PyStr ''line'')] panel_state
       = compute_panel stat_identity 0 1 [(''na_rm'', PyBool True), (''width'', PyInt 3)] panel_state"
proof -
  have h1: "fst ` set [(''geom'', PyStr ''line'')] \<inter> {''cls'', ''data'', ''scales''} = {}"
    by simp
  have h2: "fst ` set [(''na_rm'', PyBool True), (''width'', PyInt 3)] \<inter> {''cls'', ''data'', ''scales''} = {}"
    by simp
  note same = compute_panel_args_indifferent
         [OF h1 h2, where cls = stat_identity and d = 0 and ?s1.0 = 2 and ?s2.0 = 1
            and st = panel_state]
  from h1 h2 same show ?thesis
    by (intro conjI)
qed

text \<open>
  C5 (no mutation of the data). The state a call leaves, whether it returned or raised,
  is the state it started in: the object behind \<open>data\<close>, and the data frame it holds,
  are as before.
\<close>

theorem compute_panel_data_unmodified:
  "final_state (compute_panel cls d s p st) = st
   \<and> store (final_state (compute_panel cls d s p st)) d = store st d
   \<and> frame_at (final_state (compute_panel cls d s p st)) d = frame_at st d"
  by (simp add: final_state_compute_panel)

text \<open>
  C6 (the scales are neither read nor mutated). The call leaves the whole state, and
  so the object behind \<open>scales\<close>, as it was. Nothing of its result comes from the
  scales: the result is the same for any other scales reference; and replacing the
  object behind \<open>scales\<close> before the call changes nothing of the outcome but that very
  replacement in the state, so that, for scales other than the data, the object behind
  the returned reference is the same whatever the scales object is.
\<close>

theorem compute_panel_scales_untouched:
  "final_state (compute_panel cls d s p st) = st
   \<and> store (final_state (compute_panel cls d s p st)) s = store st s
   \<and> compute_panel cls d s p st = compute_panel cls d s' p st
   \<and> compute_panel cls d s p (store_write s obj st)
       = map_sum (apsnd (store_write s obj)) (apsnd (store_write s obj)) (compute_panel cls d s p st)
   \<and> (s \<noteq> d \<longrightarrow>
        behind (compute_panel cls d s p (store_write s obj st)) = behind (compute_panel cls d s p st))"
  by (cases "clash p")
     (simp_all add: compute_panel_def final_state_def behind_def store_write_def)

theorem compute_panel_scales_untouched_witness:
  "(2::nat) \<noteq> 0
   \<and> behind (compute_panel stat_identity 0 2 [] (store_write 2 (Object []) panel_state))
       = behind (compute_panel stat_identity 0 2 [] panel_state)
   \<and> behind (compute_panel stat_identity 0 2 [] panel_state) = store panel_state 0"
proof -
  have h: "(2::nat) \<noteq> 0"
    by simp
  have "behind (compute_panel stat_identity 0 2 [] panel_state) = store panel_state 0"
    by (simp add: compute_panel_def clash_def behind_def)
  note bhd = this
  note all = compute_panel_scales_untouched
         [where cls = stat_identity and d = 0 and s = 2 and s' = 2 and p = "[]"
            and st = panel_state and obj = "Object []"]
  from all have "(2::nat) \<noteq> 0 \<longrightarrow>
      behind (compute_panel stat_identity 0 2 [] (store_write 2 (Object []) panel_state))
        = behind (compute_panel stat_identity 0 2 [] panel_state)"
    by (elim conjE)
  with h have "behind (compute_panel stat_identity 0 2 [] (store_write 2 (Object []) panel_state))
        = behind (compute_panel stat_identity 0 2 [] panel_state)"
    by (rule rev_mp)
  with h bhd show ?thesis
    by (intro conjI)
qed

text \<open>
  C7 (no errors), as the spec states it: for every input triple the call returns
  normally. It fails when a keyword is named like a parameter: with \<open>cls\<close> among the
  keywords the call raises \<open>TypeError\<close>.
\<close>

theorem compute_panel_no_error_counterexample:
  "compute_panel stat_identity 0 2 [(''cls'', PyNone)] panel_state
     = Inl (TypeError ''cls'', panel_state)"
  by (simp add: compute_panel_def clash_def bound_names_def)

text \<open>
  C7, amended. For every data, scales and state, and every params with no keyword
  named \<open>cls\<close>, \<open>data\<close> or \<open>scales\<close>, the call returns normally: its result is a
  returned reference, never a raised exception.
\<close>

theorem compute_panel_no_error:
  "fst ` set p \<inter> {''cls'', ''data'', ''scales''} = {} \<Longrightarrow>
   (\<exists>res. compute_panel cls d s p st = Inr res)
   \<and> compute_panel cls d s p st \<noteq> Inl e
   \<and> \<not> isl (compute_panel cls d s p st)"
  by (simp add: compute_panel_binds)

theorem compute_panel_no_error_witness:
  "fst ` set [(''geom'', PyStr ''point''), (''position'', PyStr ''identity'')]
       \<inter> {''cls'', ''data'', ''scales''} = {}
   \<and> \<not> isl (compute_panel stat_identity 1 2
               [(''geom'', PyStr ''point''), (''position'', PyStr ''identity'')] panel_state)"
proof -
  have h: "fst ` set [(''geom'', PyStr ''point''), (''position'', PyStr ''identity'')]
       \<inter> {''cls'', ''data'', ''scales''} = {}"
    by simp
  from compute_panel_no_error
         [OF h, where cls = stat_identity and d = 1 and s = 2 and st = panel_state
            and e = "(TypeError ''cls'', panel_state)"]
  have "\<not> isl (compute_panel stat_identity 1 2
               [(''geom'', PyStr ''point''), (''position'', PyStr ''identity'')] panel_state)"
    by (elim conjE)
  with h show ?thesis
    by (intro conjI)
qed

text \<open>
  C9 (invocations in parallel do not interfere). Take any number of invocations, on
  any panels, run as threads over the store they share, and any schedule of their
  steps. The shared state at the end is the state at the start. Every thread is where
  its own steps alone take it, whatever the other threads did in between; once the
  schedule has given it two steps it has finished; and when it has finished, its
  outcome is the outcome of \<open>compute_panel\<close> for that invocation made alone.
\<close>

theorem parallel_invocations_independent:
  "i < length calls \<Longrightarrow>
     snd (run_schedule sch (map invoke calls, st)) = st
   \<and> length (fst (run_schedule sch (map invoke calls, st))) = length calls
   \<and> fst (run_schedule sch (map invoke calls, st)) ! i
       = advance (count_list sch i) st (invoke (calls ! i))
   \<and> (2 \<le> count_list sch i \<longrightarrow>
        fst (run_schedule sch (map invoke calls, st)) ! i = alone st (calls ! i))
   \<and> (finished (fst (run_schedule sch (map invoke calls, st)) ! i) \<longrightarrow>
        fst (run_schedule sch (map invoke calls, st)) ! i = alone st (calls ! i))"
proof -
  assume i: "i < length calls"
  let ?ts = "fst (run_schedule sch (map invoke calls, st))"
  have state: "snd (run_schedule sch (map invoke calls, st)) = st"
    by (simp add: run_schedule_threads)
  have len: "length ?ts = length calls"
    by (simp add: run_schedule_threads)
  have at_i: "?ts ! i = advance (count_list sch i) st (invoke (calls ! i))"
    using i by (simp add: run_schedule_threads)
  have two: "?ts ! i = alone st (calls ! i)" if "2 \<le> count_list sch i"
  proof -
    from that obtain n where "count_list sch i = Suc (Suc n)"
      by (metis Suc_le_D numeral_2_eq_2 Suc_le_mono)
    with at_i show ?thesis
      by (simp only: advance_two)
  qed
  have fin: "?ts ! i = alone st (calls ! i)" if "finished (?ts ! i)"
    using that finished_advance [of "count_list sch i" st "calls ! i"] by (simp only: at_i)
  from state len at_i two fin show ?thesis
    by blast
qed

theorem parallel_invocations_independent_witness:
  "(0::nat) < length [(stat_identity, 0::nat, 2::nat, [(''geom'', PyStr ''point'')]),
                       (stat_identity, 1, 2, [(''data'', PyNone)])]
   \<and> 2 \<le> count_list [1, 0, 1, 0::nat] 0
   \<and> snd (run_schedule [1, 0, 1, 0]
            (map invoke [(stat_identity, 0, 2, [(''geom'', PyStr ''point'')]),
                         (stat_identity, 1, 2, [(''data'', PyNone)])], panel_state)) = panel_state
   \<and> fst (run_schedule [1, 0, 1, 0]
            (map invoke [(stat_identity, 0, 2, [(''geom'', PyStr ''point'')]),
                         (stat_identity, 1, 2, [(''data'', PyNone)])], panel_state)) ! 0
       = alone panel_state ([(stat_identity, 0, 2, [(''geom'', PyStr ''point'')]),
                             (stat_identity, 1, 2, [(''data'', PyNone)])] ! 0)
   \<and> alone panel_state ([(stat_identity, 0, 2, [(''geom'', PyStr ''point'')]),
                           (stat_identity, 1, 2, [(''data'', PyNone)])] ! 0) = Returned 0"
proof -
  let ?calls = "[(stat_identity, 0::nat, 2::nat, [(''geom'', PyStr ''point'')]),
                 (stat_identity, 1, 2, [(''data'', PyNone)])]"
  let ?sch = "[1, 0, 1, 0::nat]"
  have h: "0 < length ?calls"
    by simp
  have two: "2 \<le> count_list ?sch 0"
    by simp
  have res: "alone panel_state (?calls ! 0) = Returned 0"
    by (simp add: alone_def compute_panel_def clash_def bound_names_def)
  note all = parallel_invocations_independent [OF h, where sch = ?sch and st = panel_state]
  from all have unchanged: "snd (run_schedule ?sch (map invoke ?calls, panel_state)) = panel_state"
    by (rule conjunct1)
  from all have "2 \<le> count_list ?sch 0 \<longrightarrow>
      fst (run_schedule ?sch (map invoke ?calls, panel_state)) ! 0 = alone panel_state (?calls ! 0)"
    by (elim conjE)
  with two have outcome:
    "fst (run_schedule ?sch (map invoke ?calls, panel_state)) ! 0 = alone panel_state (?calls ! 0)"
    by (rule rev_mp)
  from h two unchanged outcome res show ?thesis
    by (intro conjI)
qed

text \<open>
  C10 (the result is the argument itself), as stated: for every input the result is
  the very object that was given. It fails when a keyword is named like a parameter:
  the call raises \<open>TypeError\<close> and has no result.
\<close>

theorem compute_panel_same_reference_counterexample:
  "compute_panel stat_identity 1 2 [(''geom'', PyStr ''point''), (''data'', PyRef 0)] panel_state
     = Inl (TypeError ''data'', panel_state)"
  by (simp add: compute_panel_def clash_def bound_names_def)

text \<open>
  C10, amended. For every params with no keyword named \<open>cls\<close>, \<open>data\<close> or
  \<open>scales\<close>, the call returns the \<open>data\<close> reference itself, not a reference to a
  copy; so a later in-place mutation through the returned reference is seen through the
  caller's \<open>data\<close> reference.
\<close>

theorem compute_panel_same_reference:
  "fst ` set p \<inter> {''cls'', ''data'', ''scales''} = {} \<Longrightarrow>
   \<exists>r st'. compute_panel cls d s p st = Inr (r, st')
      \<and> r = d
      \<and> store (store_write r obj st') d = Some obj"
  by (simp add: compute_panel_binds store_write_def)

theorem compute_panel_same_reference_witness:
  "fst ` set [(''na_rm'', PyBool True)] \<inter> {''cls'', ''data'', ''scales''} = {}
   \<and> (\<exists>r st'. compute_panel stat_identity 1 2 [(''na_rm'', PyBool True)] panel_state = Inr (r, st')
         \<and> r = 1
         \<and> store (store_write r (Object []) st') 1 = Some (Object []))"
proof -
  have h: "fst ` set [(''na_rm'', PyBool True)] \<inter> {''cls'', ''data'', ''scales''} = {}"
    by simp
  note same = compute_panel_same_reference
         [OF h, where cls = stat_identity and d = 1 and s = 2 and st = panel_state
            and obj = "Object []"]
  from h same show ?thesis
    by (intro conjI)
qed

end
